theory Spec2Isabelle
  imports Main "HOL-Library.Sublist" "HOL-Library.AList"
begin

section \<open>Python strings\<close>

text \<open>
  A Python \<^verbatim>\<open>str\<close> is a sequence of Unicode code points; it is modelled as a list
  of natural numbers.  ASCII literals of the source are written with \<open>asc\<close>; all other
  literals (Chinese words, emoji) are written as their code points.
\<close>

type_synonym ustr = "nat list"

definition asc :: "string \<Rightarrow> ustr" where
  "asc s = map of_char s"

text \<open>The substring test \<^verbatim>\<open>k in s\<close>.\<close>

fun py_in :: "ustr \<Rightarrow> ustr \<Rightarrow> bool" where
  "py_in k [] = (k = [])"
| "py_in k (c # cs) = (prefix k (c # cs) \<or> py_in k cs)"

text \<open>
  \<^verbatim>\<open>str.lower()\<close> maps every code point to its lower-case form.  For ASCII this is
  the usual shift of \<^verbatim>\<open>A-Z\<close>; the CJK unified ideographs (U+4E00 to U+9FFF) have no case;
  for every other code point the result is given by the Unicode character database,
  which is a parameter of the model.  The parameter sees the text before and after the
  code point, because the mapping of U+03A3 depends on its context, and it returns a
  list, because a lower-case form may be several code points long.
\<close>

type_synonym ucd_lower = "ustr \<Rightarrow> nat \<Rightarrow> ustr \<Rightarrow> ustr"

definition lower_ucs4 :: "ucd_lower \<Rightarrow> ustr \<Rightarrow> nat \<Rightarrow> ustr \<Rightarrow> ustr" where
  "lower_ucs4 U pre c post =
     (if c < 128 then [if 65 \<le> c \<and> c \<le> 90 then c + 32 else c]
      else if 0x4E00 \<le> c \<and> c \<le> 0x9FFF then [c]
      else U pre c post)"

fun lower_from :: "ucd_lower \<Rightarrow> ustr \<Rightarrow> ustr \<Rightarrow> ustr" where
  "lower_from U pre [] = []"
| "lower_from U pre (c # cs) = lower_ucs4 U pre c cs @ lower_from U (pre @ [c]) cs"

definition py_lower :: "ucd_lower \<Rightarrow> ustr \<Rightarrow> ustr" where
  "py_lower U s = lower_from U [] s"


section \<open>Content parser: classification of free text\<close>

text \<open>\<^verbatim>\<open>claude_content_parser.py\<close>: \<^verbatim>\<open>ContentType\<close>.\<close>

datatype ContentType =
    SYSTEM_INIT | THINKING | PLANNING | TOOL_USE | TOOL_RESULT | EXECUTION
  | ANALYSIS | SUMMARY | ERROR_HANDLING | STATUS_UPDATE | REGULAR_TEXT

text \<open>
  The keyword lists of \<^verbatim>\<open>ClaudeContentParser.__init__\<close>, in the order of the source.
  The Chinese keywords are given by code point.
\<close>

definition thinking_keywords :: "ustr list" where
  "thinking_keywords =
     [[0x6211, 0x5C06], [0x8BA9, 0x6211], [0x6211, 0x9700, 0x8981],
      [0x6211, 0x7684, 0x601D, 0x8DEF], [0x6211, 0x8BA4, 0x4E3A], [0x5206, 0x6790],
      [0x8003, 0x8651], [0x7B56, 0x7565], [0x65B9, 0x6CD5],
      asc ''approach'', asc ''strategy'', asc ''thinking'', asc ''consider'']"

definition planning_keywords :: "ustr list" where
  "planning_keywords =
     [[0x89C4, 0x5212], [0x8BA1, 0x5212], [0x6B65, 0x9AA4], [0x4EFB, 0x52A1],
      [0x6846, 0x67B6],
      asc ''plan'', asc ''step'', asc ''task'', asc ''framework'', asc ''structure'',
      asc ''organize'', asc ''TodoWrite'']"

definition execution_keywords :: "ustr list" where
  "execution_keywords =
     [[0x6267, 0x884C], [0x5F00, 0x59CB], [0x73B0, 0x5728], [0x63A5, 0x4E0B, 0x6765],
      asc ''execute'', asc ''start'', asc ''begin'', asc ''proceed'',
      asc ''WebSearch'', asc ''WebFetch'', [0x641C, 0x7D22], [0x67E5, 0x627E]]"

definition analysis_keywords :: "ustr list" where
  "analysis_keywords =
     [[0x5206, 0x6790], [0x7814, 0x7A76], [0x53D1, 0x73B0], [0x7ED3, 0x679C],
      [0x6570, 0x636E], [0x8D8B, 0x52BF],
      asc ''analyze'', asc ''research'', asc ''findings'', asc ''results'',
      asc ''data'', asc ''trends'']"

definition error_keywords :: "ustr list" where
  "error_keywords =
     [[0x9519, 0x8BEF], [0x5931, 0x8D25], [0x95EE, 0x9898], [0x9650, 0x5236],
      [0x65E0, 0x6CD5],
      asc ''error'', asc ''failed'', asc ''problem'', asc ''unable'', asc ''limitation'',
      asc ''API Error'']"

text \<open>\<^verbatim>\<open>any(keyword in text_lower for keyword in keywords)\<close>.\<close>

definition any_keyword_in :: "ustr list \<Rightarrow> ustr \<Rightarrow> bool" where
  "any_keyword_in keywords text_lower = list_ex (\<lambda>keyword. py_in keyword text_lower) keywords"

text \<open>\<^verbatim>\<open>ClaudeContentParser._classify_text_content\<close>.\<close>

definition classify_text_content :: "ucd_lower \<Rightarrow> ustr \<Rightarrow> ContentType" where
  "classify_text_content U text =
     (let text_lower = py_lower U text in
      if any_keyword_in error_keywords text_lower then ERROR_HANDLING
      else if any_keyword_in planning_keywords text_lower then PLANNING
      else if any_keyword_in thinking_keywords text_lower then THINKING
      else if any_keyword_in execution_keywords text_lower then EXECUTION
      else if any_keyword_in analysis_keywords text_lower then ANALYSIS
      else REGULAR_TEXT)"


subsection \<open>Substrings and lower-casing\<close>

lemma py_in_iff: "py_in k s \<longleftrightarrow> (\<exists>a b. s = a @ k @ b)"
proof (induction s)
  case Nil
  then show ?case by auto
next
  case (Cons c cs)
  show ?case
  proof
    assume "py_in k (c # cs)"
    then consider "prefix k (c # cs)" | "py_in k cs" by auto
    then show "\<exists>a b. c # cs = a @ k @ b"
    proof cases
      case 1
      then obtain b where "c # cs = k @ b" by (auto simp: prefix_def)
      then have "c # cs = [] @ k @ b" by simp
      then show ?thesis by blast
    next
      case 2
      with Cons.IH obtain a b where "cs = a @ k @ b" by blast
      then have "c # cs = (c # a) @ k @ b" by simp
      then show ?thesis by blast
    qed
  next
    assume "\<exists>a b. c # cs = a @ k @ b"
    then obtain a b where ab: "c # cs = a @ k @ b" by blast
    show "py_in k (c # cs)"
    proof (cases a)
      case Nil
      with ab have "prefix k (c # cs)" by (simp add: prefix_def)
      then show ?thesis by simp
    next
      case (Cons a0 as)
      with ab have "cs = as @ k @ b" by simp
      with Cons.IH have "py_in k cs" by blast
      then show ?thesis by simp
    qed
  qed
qed

lemma py_in_trans: "py_in a b \<Longrightarrow> py_in b c \<Longrightarrow> py_in a c"
proof -
  assume "py_in a b" and "py_in b c"
  then obtain p q r s where "b = p @ a @ q" and "c = r @ b @ s" by (auto simp: py_in_iff)
  then have "c = (r @ p) @ a @ (q @ s)" by simp
  then show ?thesis unfolding py_in_iff by blast
qed

text \<open>
  A keyword made of ASCII characters and CJK ideographs is lower-cased character by
  character, whatever surrounds it and whatever the character database says about other
  code points.
\<close>

definition ascii_lower :: "nat \<Rightarrow> nat" where
  "ascii_lower c = (if 65 \<le> c \<and> c \<le> 90 then c + 32 else c)"

definition caseless :: "nat \<Rightarrow> bool" where
  "caseless c \<longleftrightarrow> c < 128 \<or> (0x4E00 \<le> c \<and> c \<le> 0x9FFF)"

lemma lower_ucs4_caseless: "caseless c \<Longrightarrow> lower_ucs4 U pre c post = [ascii_lower c]"
  by (auto simp: caseless_def lower_ucs4_def ascii_lower_def)

lemma lower_from_keyword:
  "list_all caseless k \<Longrightarrow>
   lower_from U pre (k @ b) = map ascii_lower k @ lower_from U (pre @ k) b"
  by (induction k arbitrary: pre) (simp_all add: lower_ucs4_caseless)

lemma lower_from_append: "\<exists>z. lower_from U pre (a @ r) = z @ lower_from U (pre @ a) r"
proof (induction a arbitrary: pre)
  case Nil
  show ?case by simp
next
  case (Cons c cs)
  from Cons.IH [of "pre @ [c]"] obtain z
    where "lower_from U (pre @ [c]) (cs @ r) = z @ lower_from U ((pre @ [c]) @ cs) r" by blast
  then have "lower_from U pre ((c # cs) @ r)
      = (lower_ucs4 U pre c (cs @ r) @ z) @ lower_from U (pre @ c # cs) r" by simp
  then show ?case by blast
qed

lemma py_in_lower:
  assumes "py_in k text" and "list_all caseless k"
  shows "py_in (map ascii_lower k) (py_lower U text)"
proof -
  from assms(1) obtain a b where "text = a @ k @ b" by (auto simp: py_in_iff)
  moreover obtain z where "lower_from U [] (a @ k @ b) = z @ lower_from U ([] @ a) (k @ b)"
    using lower_from_append by blast
  ultimately have "py_lower U text = z @ map ascii_lower k @ lower_from U (a @ k) b"
    by (simp add: py_lower_def lower_from_keyword [OF assms(2)])
  then show ?thesis by (auto simp: py_in_iff)
qed

subsection \<open>Priority of the keyword sets\<close>

lemmas keyword_defs =
  thinking_keywords_def planning_keywords_def execution_keywords_def
  analysis_keywords_def error_keywords_def

lemmas classify_eval =
  classify_text_content_def py_lower_def lower_ucs4_def any_keyword_in_def keyword_defs asc_def

text \<open>
  The sets are tested in the order error, planning, thinking, execution, analysis; the
  first set with a keyword in the lower-cased text decides.
\<close>

lemma classify_priority_order:
  "classify_text_content U text =
     (if any_keyword_in error_keywords (py_lower U text) then ERROR_HANDLING
      else if any_keyword_in planning_keywords (py_lower U text) then PLANNING
      else if any_keyword_in thinking_keywords (py_lower U text) then THINKING
      else if any_keyword_in execution_keywords (py_lower U text) then EXECUTION
      else if any_keyword_in analysis_keywords (py_lower U text) then ANALYSIS
      else REGULAR_TEXT)"
  by (simp add: classify_text_content_def)

lemma error_keyword_survives_lower:
  assumes "k \<in> set error_keywords" and "py_in k text"
  shows "any_keyword_in error_keywords (py_lower U text)"
proof -
  have cl: "list_all caseless k"
    using assms(1) by (auto simp: error_keywords_def asc_def caseless_def)
  have "py_in (asc ''error'') (map ascii_lower k) \<or> map ascii_lower k \<in> set error_keywords"
    using assms(1) by (auto simp: error_keywords_def asc_def ascii_lower_def)
  moreover have "py_in (map ascii_lower k) (py_lower U text)"
    using py_in_lower [OF assms(2) cl] .
  ultimately have "py_in (asc ''error'') (py_lower U text)
      \<or> (\<exists>k' \<in> set error_keywords. py_in k' (py_lower U text))"
    using py_in_trans by blast
  moreover have "asc ''error'' \<in> set error_keywords" by (simp add: error_keywords_def)
  ultimately show ?thesis
    unfolding any_keyword_in_def list_ex_iff by blast
qed

text \<open>
  A text that contains an error keyword, as written in the source, is classified as
  error handling, whatever else it contains: error outranks planning.
\<close>

lemma error_outranks_every_other_set:
  assumes "any_keyword_in error_keywords text"
  shows "classify_text_content U text = ERROR_HANDLING"
proof -
  from assms obtain k where "k \<in> set error_keywords" and "py_in k text"
    by (auto simp: any_keyword_in_def list_ex_iff)
  then have "any_keyword_in error_keywords (py_lower U text)"
    by (rule error_keyword_survives_lower)
  then show ?thesis by (simp add: classify_text_content_def)
qed

lemma error_and_planning_example:
  "classify_text_content U (asc ''plan failed'') = ERROR_HANDLING"
  by (simp add: classify_eval)

text \<open>
  Claim C7.  The text is lower-cased before the keywords are looked up, but the keyword
  \<^verbatim>\<open>TodoWrite\<close> is written in mixed case, so it never occurs in the lower-cased text.
  The line \<^verbatim>\<open>TodoWrite\<close> contains that planning keyword and no error keyword, and is
  classified as regular text, not as planning.
\<close>

theorem C7_TodoWrite_line_is_regular_text:
  "py_in (asc ''TodoWrite'') (asc ''TodoWrite'')
   \<and> asc ''TodoWrite'' \<in> set planning_keywords
   \<and> \<not> any_keyword_in error_keywords (asc ''TodoWrite'')
   \<and> classify_text_content U (asc ''TodoWrite'') = REGULAR_TEXT
   \<and> classify_text_content U (asc ''TodoWrite'') \<noteq> PLANNING"
  by (simp add: classify_eval)


section \<open>Rendering of TodoWrite task lists\<close>

subsection \<open>More of Python's strings\<close>

text \<open>The white space of \<^verbatim>\<open>str.strip()\<close> and \<^verbatim>\<open>str.isspace()\<close>.\<close>

definition py_isspace :: "nat \<Rightarrow> bool" where
  "py_isspace c \<longleftrightarrow>
     (0x09 \<le> c \<and> c \<le> 0x0D) \<or> (0x1C \<le> c \<and> c \<le> 0x20) \<or> c = 0x85 \<or> c = 0xA0
     \<or> c = 0x1680 \<or> (0x2000 \<le> c \<and> c \<le> 0x200A) \<or> c = 0x2028 \<or> c = 0x2029
     \<or> c = 0x202F \<or> c = 0x205F \<or> c = 0x3000"

definition py_strip :: "ustr \<Rightarrow> ustr" where
  "py_strip s = rev (dropWhile py_isspace (rev (dropWhile py_isspace s)))"

text \<open>\<^verbatim>\<open>sep.join(xs)\<close>.\<close>

fun py_join :: "ustr \<Rightarrow> ustr list \<Rightarrow> ustr" where
  "py_join sep [] = []"
| "py_join sep [x] = x"
| "py_join sep (x # y # ys) = x @ sep @ py_join sep (y # ys)"

text \<open>\<^verbatim>\<open>str(n)\<close> for a natural number and for an integer.\<close>

fun py_str_nat :: "nat \<Rightarrow> ustr" where
  "py_str_nat n = (if n < 10 then [48 + n] else py_str_nat (n div 10) @ [48 + n mod 10])"

declare py_str_nat.simps [simp del]

definition py_str_int :: "int \<Rightarrow> ustr" where
  "py_str_int i = (if i < 0 then 45 # py_str_nat (nat (- i)) else py_str_nat (nat i))"

text \<open>\<^verbatim>\<open>d.get(key, default)\<close> for a key that may be absent.\<close>

definition py_get :: "'a option \<Rightarrow> 'a \<Rightarrow> 'a" where
  "py_get v dflt = (case v of None \<Rightarrow> dflt | Some x \<Rightarrow> x)"

subsection \<open>The two renderers\<close>

text \<open>
  An item of the \<^verbatim>\<open>todos\<close> list of a TodoWrite call: a dictionary whose keys
  \<^verbatim>\<open>status\<close>, \<^verbatim>\<open>content\<close> and \<^verbatim>\<open>activeForm\<close> may each be absent, holding strings.
  The tool input is modelled by its \<^verbatim>\<open>todos\<close> entry, which may be absent too.
\<close>

record todo =
  todo_status :: "ustr option"
  todo_content :: "ustr option"
  todo_activeForm :: "ustr option"

type_synonym todo_input = "todo list option"

text \<open>The dictionary of status emoji with its default, as both renderers have it.\<close>

definition status_emoji :: "ustr \<Rightarrow> ustr" where
  "status_emoji status =
     (if status = asc ''pending'' then [0x23F3]
      else if status = asc ''in_progress'' then [0x1F504]
      else if status = asc ''completed'' then [0x2705]
      else [0x1F4DD])"

text \<open>
  \<^verbatim>\<open>ClaudeContentParser._format_todo_content\<close> (\<^verbatim>\<open>claude_content_parser.py\<close>), the
  content that the content parser gives a TodoWrite item.
\<close>

definition format_todo_content :: "todo_input \<Rightarrow> ustr" where
  "format_todo_content tool_input =
     (let todos = py_get tool_input [] in
      if todos = [] then [0x521B, 0x5EFA, 0x4EFB, 0x52A1, 0x5217, 0x8868]
      else
        let formatted_todos =
              map (\<lambda>todo.
                     let status = py_get (todo_status todo) (asc ''pending'');
                         content = py_get (todo_content todo) []
                     in status_emoji status @ asc '' '' @ content) todos
        in [0x4EFB, 0x52A1, 0x89C4, 0x5212] @ asc '':'' @ [10] @ py_join [10] formatted_todos)"

text \<open>
  \<^verbatim>\<open>ClaudeProcess._format_todo_write_display\<close> (\<^verbatim>\<open>claude_service.py\<close>), the text
  that the process manager streams for a TodoWrite call.  The counts are the sums of
  the source; the loop over the items appends to \<^verbatim>\<open>result\<close>.
\<close>

definition count_status :: "todo list \<Rightarrow> ustr \<Rightarrow> nat" where
  "count_status todos s =
     sum_list (map (\<lambda>todo. 1) (filter (\<lambda>todo. todo_status todo = Some s) todos))"

definition format_todo_write_display :: "todo_input \<Rightarrow> ustr" where
  "format_todo_write_display tool_input =
     (let todos = py_get tool_input [] in
      if todos = [] then
        asc ''```'' @ [10] @ [0x1F4CB] @ asc '' ''
          @ [0x521B, 0x5EFA, 0x7A7A, 0x4EFB, 0x52A1, 0x5217, 0x8868] @ [10] @ asc ''```''
      else
        let pending_count = count_status todos (asc ''pending'');
            in_progress_count = count_status todos (asc ''in_progress'');
            completed_count = count_status todos (asc ''completed'');
            action =
              (if in_progress_count > 0 then [0x66F4, 0x65B0, 0x4EFB, 0x52A1, 0x5217, 0x8868]
               else if completed_count = length todos
                 then [0x5B8C, 0x6210, 0x4EFB, 0x52A1, 0x5217, 0x8868]
               else [0x521B, 0x5EFA, 0x4EFB, 0x52A1, 0x5217, 0x8868]);
            result0 = asc ''```'' @ [10] @ [0x1F4CB] @ asc '' '' @ action @ asc '' (''
                        @ [0x5171] @ asc '' '' @ py_str_nat (length todos) @ asc '' ''
                        @ [0x9879, 0x4EFB, 0x52A1];
            result1 = (if completed_count > 0
                       then result0 @ [0xFF0C, 0x5DF2, 0x5B8C, 0x6210] @ asc '' ''
                              @ py_str_nat completed_count @ asc '' '' @ [0x9879]
                       else result0);
            result2 = (if in_progress_count > 0
                       then result1 @ [0xFF0C, 0x8FDB, 0x884C, 0x4E2D] @ asc '' ''
                              @ py_str_nat in_progress_count @ asc '' '' @ [0x9879]
                       else result1);
            result3 = result2 @ asc '')'' @ [10];
            result4 =
              foldl (\<lambda>result todo.
                       let status = py_get (todo_status todo) (asc ''pending'');
                           content = py_get (todo_content todo) [];
                           active_form = py_get (todo_activeForm todo) [];
                           display_content =
                             (if active_form \<noteq> [] \<and> py_strip active_form \<noteq> []
                              then active_form else content)
                       in result @ asc ''  '' @ status_emoji status @ asc '' ''
                            @ display_content @ [10])
                    result3 todos
        in result4 @ asc ''```'')"

text \<open>The example of the specification: item A pending, item B completed with an active form.\<close>

definition example_todos :: "todo list" where
  "example_todos =
     [\<lparr>todo_status = Some (asc ''pending''), todo_content = Some (asc ''A''),
        todo_activeForm = None\<rparr>,
      \<lparr>todo_status = Some (asc ''completed''), todo_content = Some (asc ''B''),
        todo_activeForm = Some (asc ''Doing B'')\<rparr>]"


subsection \<open>The rendering described by the specification\<close>

text \<open>
  The task-list rendering in the words of the specification: the action label, the
  header line with the counts that are not zero, and one line per item showing the
  active form when it is not blank and the content otherwise.
\<close>


definition spec_display :: "todo \<Rightarrow> ustr" where
  "spec_display t =
     (case todo_activeForm t of
        Some a \<Rightarrow> if list_all py_isspace a then py_get (todo_content t) [] else a
      | None \<Rightarrow> py_get (todo_content t) [])"

definition spec_action_label :: "todo list \<Rightarrow> ustr" where
  "spec_action_label todos =
     (if list_ex (\<lambda>t. todo_status t = Some (asc ''in_progress'')) todos
        then [0x66F4, 0x65B0, 0x4EFB, 0x52A1, 0x5217, 0x8868]
      else if list_all (\<lambda>t. todo_status t = Some (asc ''completed'')) todos
        then [0x5B8C, 0x6210, 0x4EFB, 0x52A1, 0x5217, 0x8868]
      else [0x521B, 0x5EFA, 0x4EFB, 0x52A1, 0x5217, 0x8868])"

definition spec_count :: "todo list \<Rightarrow> string \<Rightarrow> nat" where
  "spec_count todos s = length (filter (\<lambda>t. todo_status t = Some (asc s)) todos)"

definition spec_header :: "todo list \<Rightarrow> ustr" where
  "spec_header todos =
     [0x1F4CB] @ asc '' '' @ spec_action_label todos @ asc '' ('' @ [0x5171] @ asc '' ''
       @ py_str_nat (length todos) @ asc '' '' @ [0x9879, 0x4EFB, 0x52A1]
       @ (if spec_count todos ''completed'' = 0 then []
          else [0xFF0C, 0x5DF2, 0x5B8C, 0x6210] @ asc '' ''
                 @ py_str_nat (spec_count todos ''completed'') @ asc '' '' @ [0x9879])
       @ (if spec_count todos ''in_progress'' = 0 then []
          else [0xFF0C, 0x8FDB, 0x884C, 0x4E2D] @ asc '' ''
                 @ py_str_nat (spec_count todos ''in_progress'') @ asc '' '' @ [0x9879])
       @ asc '')''"

definition spec_item_line :: "todo \<Rightarrow> ustr" where
  "spec_item_line t =
     asc ''  '' @ status_emoji (py_get (todo_status t) (asc ''pending'')) @ asc '' ''
       @ spec_display t"

definition spec_task_list_rendering :: "todo list \<Rightarrow> ustr" where
  "spec_task_list_rendering todos =
     asc ''```'' @ [10] @ spec_header todos @ [10]
       @ concat (map (\<lambda>t. spec_item_line t @ [10]) todos) @ asc ''```''"


subsection \<open>Facts about the renderers\<close>

lemma foldl_append_lines: "foldl (\<lambda>r t. r @ f t) acc ts = acc @ concat (map f ts)"
  by (induction ts arbitrary: acc) simp_all

lemma count_status_length:
  "count_status todos s = length (filter (\<lambda>t. todo_status t = Some s) todos)"
  by (simp add: count_status_def sum_list_triv)

lemma filter_empty_list_ex: "filter P xs = [] \<longleftrightarrow> \<not> list_ex P xs"
  by (simp add: filter_empty_conv list_ex_iff)

lemma length_filter_all: "length (filter P xs) = length xs \<longleftrightarrow> list_all P xs"
proof (induction xs)
  case Nil
  show ?case by simp
next
  case (Cons x xs)
  have le: "length (filter P xs) \<le> length xs" by (rule length_filter_le)
  show ?case
  proof (cases "P x")
    case True
    with Cons show ?thesis by simp
  next
    case False
    from le have "length (filter P xs) \<noteq> Suc (length xs)" by arith
    with False show ?thesis by simp
  qed
qed

lemma list_all_dropWhile: "list_all P (dropWhile P a) \<longleftrightarrow> list_all P a"
  by (induction a) simp_all

lemma strip_empty_iff: "py_strip a = [] \<longleftrightarrow> list_all py_isspace a"
proof -
  have "py_strip a = [] \<longleftrightarrow> list_all py_isspace (rev (dropWhile py_isspace a))"
    by (simp add: py_strip_def dropWhile_eq_Nil_conv list_all_iff)
  also have "\<dots> \<longleftrightarrow> list_all py_isspace (dropWhile py_isspace a)"
    by (simp add: list_all_iff)
  finally show ?thesis by (simp add: list_all_dropWhile)
qed

lemma display_content_spec:
  "(let active_form = py_get (todo_activeForm t) [] in
      if active_form \<noteq> [] \<and> py_strip active_form \<noteq> [] then active_form
      else py_get (todo_content t) []) = spec_display t"
  by (cases "todo_activeForm t") (auto simp: spec_display_def py_get_def strip_empty_iff)


lemma display_is_spec_rendering:
  assumes ne: "todos \<noteq> []"
  shows "format_todo_write_display (Some todos) = spec_task_list_rendering todos"
proof -
  have disp: "\<And>t. (if py_get (todo_activeForm t) [] \<noteq> []
                       \<and> py_strip (py_get (todo_activeForm t) []) \<noteq> []
                     then py_get (todo_activeForm t) [] else py_get (todo_content t) [])
                  = spec_display t"
    using display_content_spec by (simp add: Let_def)
  have lines: "\<And>acc. foldl (\<lambda>result todo.
                       result @ asc ''  '' @ status_emoji (py_get (todo_status todo) (asc ''pending''))
                         @ asc '' '' @ spec_display todo @ [10])
                    acc todos = acc @ concat (map (\<lambda>t. spec_item_line t @ [10]) todos)"
    by (simp add: foldl_append_lines spec_item_line_def)
  have cnt: "\<And>s. count_status todos (asc s) = spec_count todos s"
    by (simp add: count_status_length spec_count_def)
  have act: "(if 0 < spec_count todos ''in_progress''
              then [0x66F4, 0x65B0, 0x4EFB, 0x52A1, 0x5217, 0x8868]
              else if spec_count todos ''completed'' = length todos
                then [0x5B8C, 0x6210, 0x4EFB, 0x52A1, 0x5217, 0x8868]
              else [0x521B, 0x5EFA, 0x4EFB, 0x52A1, 0x5217, 0x8868]) = spec_action_label todos"
    by (simp add: spec_action_label_def spec_count_def filter_empty_list_ex
          length_filter_all)
  have get: "py_get (Some todos) [] = todos" by (simp add: py_get_def)
  show ?thesis
  proof (cases "spec_count todos ''in_progress'' = 0")
    case ip0: True
    show ?thesis
    proof (cases "spec_count todos ''completed'' = 0")
      case True
      with ip0 ne show ?thesis
        unfolding format_todo_write_display_def Let_def get disp lines cnt
        by (simp add: act [symmetric] spec_task_list_rendering_def spec_header_def)
    next
      case False
      with ip0 ne show ?thesis
        unfolding format_todo_write_display_def Let_def get disp lines cnt
        by (simp add: act [symmetric] spec_task_list_rendering_def spec_header_def)
    qed
  next
    case ip1: False
    show ?thesis
    proof (cases "spec_count todos ''completed'' = 0")
      case True
      with ip1 ne show ?thesis
        unfolding format_todo_write_display_def Let_def get disp lines cnt
        by (simp add: act [symmetric] spec_task_list_rendering_def spec_header_def)
    next
      case False
      with ip1 ne show ?thesis
        unfolding format_todo_write_display_def Let_def get disp lines cnt
        by (simp add: act [symmetric] spec_task_list_rendering_def spec_header_def)
    qed
  qed
qed

lemma content_parser_rendering:
  assumes "todos \<noteq> []"
  shows "format_todo_content (Some todos) =
           [0x4EFB, 0x52A1, 0x89C4, 0x5212] @ asc '':'' @ [10]
             @ py_join [10]
                 (map (\<lambda>t. status_emoji (py_get (todo_status t) (asc ''pending''))
                              @ asc '' '' @ py_get (todo_content t) []) todos)"
  using assms unfolding format_todo_content_def Let_def py_get_def [of "Some todos"]
  by simp

text \<open>
  Claim C2, as the code has it.  For a TodoWrite call with at least one item, the text
  that the process manager streams (\<^verbatim>\<open>_format_todo_write_display\<close>) is the task-list
  rendering of the specification.  The content that the content parser produces for the
  same call (\<^verbatim>\<open>_format_todo_content\<close>) is a different, simpler text: a title line
  followed by one line per item with the emoji and the item's content, joined by
  newlines, without action label, counts, indentation or active form.
\<close>

theorem C2_task_list_rendering:
  assumes "todos \<noteq> []"
  shows "format_todo_write_display (Some todos) = spec_task_list_rendering todos
       \<and> format_todo_content (Some todos) =
           [0x4EFB, 0x52A1, 0x89C4, 0x5212] @ asc '':'' @ [10]
             @ py_join [10]
                 (map (\<lambda>t. status_emoji (py_get (todo_status t) (asc ''pending''))
                              @ asc '' '' @ py_get (todo_content t) []) todos)"
  using display_is_spec_rendering [OF assms] content_parser_rendering [OF assms]
  by (rule conjI)

lemmas todo_eval =
  py_str_nat.simps example_todos_def py_get_def status_emoji_def asc_def count_status_def py_strip_def
  py_isspace_def spec_task_list_rendering_def spec_header_def spec_item_line_def
  spec_count_def spec_action_label_def spec_display_def

text \<open>
  The example of the specification: the action label is the "create" label
  (U+521B U+5EFA ...) and the line of item B reads two spaces, the check mark, a space and
  \<^verbatim>\<open>Doing B\<close>.
\<close>

theorem C2_task_list_rendering_witness:
  "example_todos \<noteq> []
   \<and> format_todo_write_display (Some example_todos) = spec_task_list_rendering example_todos
   \<and> spec_action_label example_todos = [0x521B, 0x5EFA, 0x4EFB, 0x52A1, 0x5217, 0x8868]
   \<and> spec_item_line (example_todos ! 1) = asc ''  '' @ [0x2705] @ asc '' Doing B''
   \<and> format_todo_write_display (Some example_todos) =
       asc ''```'' @ [10] @ [0x1F4CB] @ asc '' '' @ [0x521B, 0x5EFA, 0x4EFB, 0x52A1, 0x5217, 0x8868]
         @ asc '' ('' @ [0x5171] @ asc '' 2 '' @ [0x9879, 0x4EFB, 0x52A1]
         @ [0xFF0C, 0x5DF2, 0x5B8C, 0x6210] @ asc '' 1 '' @ [0x9879] @ asc '')'' @ [10]
         @ asc ''  '' @ [0x23F3] @ asc '' A'' @ [10]
         @ asc ''  '' @ [0x2705] @ asc '' Doing B'' @ [10] @ asc ''```''"
proof -
  have ne: "example_todos \<noteq> []" by (simp add: example_todos_def)
  from C2_task_list_rendering [OF ne]
  have eq: "format_todo_write_display (Some example_todos)
              = spec_task_list_rendering example_todos" by simp
  have val: "spec_task_list_rendering example_todos =
       asc ''```'' @ [10] @ [0x1F4CB] @ asc '' '' @ [0x521B, 0x5EFA, 0x4EFB, 0x52A1, 0x5217, 0x8868]
         @ asc '' ('' @ [0x5171] @ asc '' 2 '' @ [0x9879, 0x4EFB, 0x52A1]
         @ [0xFF0C, 0x5DF2, 0x5B8C, 0x6210] @ asc '' 1 '' @ [0x9879] @ asc '')'' @ [10]
         @ asc ''  '' @ [0x23F3] @ asc '' A'' @ [10]
         @ asc ''  '' @ [0x2705] @ asc '' Doing B'' @ [10] @ asc ''```''"
    by (simp add: todo_eval)
  have lab: "spec_action_label example_todos = [0x521B, 0x5EFA, 0x4EFB, 0x52A1, 0x5217, 0x8868]"
    by (simp add: todo_eval)
  have line: "spec_item_line (example_todos ! 1) = asc ''  '' @ [0x2705] @ asc '' Doing B''"
    by (simp add: todo_eval)
  from ne eq val lab line show ?thesis by simp
qed

text \<open>
  Claim C2 as stated fails for the content parser: on the example of the specification
  its content is the title line, then \<^verbatim>\<open>A\<close> and \<^verbatim>\<open>B\<close> with their emoji.  It is not
  the task-list rendering, it has no action label, and the line of item B shows the
  content \<^verbatim>\<open>B\<close>, not the active form.
\<close>

theorem C2_content_parser_counterexample:
  "format_todo_content (Some example_todos) =
     [0x4EFB, 0x52A1, 0x89C4, 0x5212] @ asc '':'' @ [10] @ [0x23F3] @ asc '' A'' @ [10]
       @ [0x2705] @ asc '' B''
   \<and> format_todo_content (Some example_todos) \<noteq> spec_task_list_rendering example_todos
   \<and> \<not> py_in (spec_action_label example_todos) (format_todo_content (Some example_todos))
   \<and> \<not> py_in (spec_item_line (example_todos ! 1)) (format_todo_content (Some example_todos))"
  by (simp add: format_todo_content_def todo_eval)



section \<open>Process manager: the two registries\<close>

text \<open>
  \<^verbatim>\<open>claude_service.py\<close>, class \<^verbatim>\<open>ClaudeService\<close>.  A \<^verbatim>\<open>ClaudeProcess\<close> object is
  identified with its \<^verbatim>\<open>process_id\<close>: the identifier is drawn by \<^verbatim>\<open>uuid4\<close> when the
  object is constructed and never reassigned, and identifiers are modelled as a counter,
  so that a new one has never been used before.  The two registries are Python
  dictionaries, which keep their keys in insertion order; they are association lists
  here, and both hold handles (not copies), so the flag \<^verbatim>\<open>is_running\<close> of a handle is
  stored once, whatever registry the handle is reached through.
\<close>

text \<open>The exceptions of the program that the model distinguishes.\<close>

datatype py_error =
    ClaudeProcessError | SessionError | TypeError | ValueError

type_synonym 'v pydict = "(ustr \<times> 'v) list"

text \<open>The truth value of an optional string: \<^verbatim>\<open>None\<close> and the empty string are false.\<close>

definition truthy :: "ustr option \<Rightarrow> bool" where
  "truthy s \<longleftrightarrow> (case s of None \<Rightarrow> False | Some x \<Rightarrow> x \<noteq> [])"

record ClaudeService =
  is_running :: "nat \<Rightarrow> bool"
  active_processes :: "(nat \<times> nat) list"
  session_processes :: "(ustr \<times> nat) list"
  next_process_id :: nat

definition new_service :: ClaudeService where
  "new_service = \<lparr>is_running = (\<lambda>h. False), active_processes = [], session_processes = [],
                   next_process_id = 0\<rparr>"

text \<open>\<^verbatim>\<open>ClaudeProcess.stop\<close>.\<close>

definition stop :: "nat \<Rightarrow> ClaudeService \<Rightarrow> ClaudeService" where
  "stop h s = (if is_running s h then s\<lparr>is_running := (is_running s)(h := False)\<rparr> else s)"

text \<open>
  \<^verbatim>\<open>ClaudeService.get_or_create_process\<close>, in its two parts: first the look-up of the
  conversation id, which returns a running handle or evicts a stopped one from both
  registries; then the construction of a new handle, which draws a process id, starts
  the handle (\<open>start_ok\<close> tells whether \<^verbatim>\<open>start\<close> succeeds; it raises otherwise) and
  registers it.
\<close>

definition evict_stopped :: "ustr option \<Rightarrow> ClaudeService \<Rightarrow> nat option \<times> ClaudeService" where
  "evict_stopped session_id s =
     (case session_id of
        None \<Rightarrow> (None, s)
      | Some sid \<Rightarrow>
          (if sid = [] then (None, s)
           else case map_of (session_processes s) sid of
                  None \<Rightarrow> (None, s)
                | Some existing_process \<Rightarrow>
                    if is_running s existing_process then (Some existing_process, s)
                    else
                      let s1 = s\<lparr>session_processes := AList.delete sid (session_processes s)\<rparr>;
                          s2 = (if map_of (active_processes s1) existing_process \<noteq> None
                                then s1\<lparr>active_processes :=
                                          AList.delete existing_process (active_processes s1)\<rparr>
                                else s1)
                      in (None, s2)))"

definition register_new :: "ustr option \<Rightarrow> bool \<Rightarrow> ClaudeService \<Rightarrow> (py_error + nat) \<times> ClaudeService" where
  "register_new session_id start_ok s =
     (let process = next_process_id s;
          s1 = s\<lparr>next_process_id := Suc process\<rparr>
      in if \<not> start_ok then (Inl ClaudeProcessError, s1)
         else
           let s2 = s1\<lparr>is_running := (is_running s1)(process := True)\<rparr>;
               s3 = s2\<lparr>active_processes := AList.update process process (active_processes s2)\<rparr>;
               s4 = (case session_id of
                       None \<Rightarrow> s3
                     | Some sid \<Rightarrow>
                         if sid = [] then s3
                         else s3\<lparr>session_processes :=
                                   AList.update sid process (session_processes s3)\<rparr>)
           in (Inr process, s4))"

definition get_or_create_process ::
  "ustr option \<Rightarrow> bool \<Rightarrow> ClaudeService \<Rightarrow> (py_error + nat) \<times> ClaudeService" where
  "get_or_create_process session_id start_ok s =
     (case evict_stopped session_id s of
        (Some existing_process, s') \<Rightarrow> (Inr existing_process, s')
      | (None, s') \<Rightarrow> register_new session_id start_ok s')"

text \<open>
  \<^verbatim>\<open>ClaudeService.remove_process\<close>.  The loop over \<^verbatim>\<open>session_processes.items()\<close> stops at
  the first entry whose handle has the given process id.
\<close>

definition remove_process :: "nat \<Rightarrow> ClaudeService \<Rightarrow> ClaudeService" where
  "remove_process process_id s =
     (case map_of (active_processes s) process_id of
        None \<Rightarrow> s
      | Some process \<Rightarrow>
          let s1 = s\<lparr>active_processes := AList.delete process_id (active_processes s)\<rparr>;
              session_id_to_remove =
                map_option fst (find (\<lambda>(sid, cached_process). cached_process = process_id)
                                  (session_processes s1));
              s2 = (case session_id_to_remove of
                      None \<Rightarrow> s1
                    | Some sid \<Rightarrow>
                        if sid = [] then s1
                        else s1\<lparr>session_processes := AList.delete sid (session_processes s1)\<rparr>)
          in stop process s2)"

text \<open>\<^verbatim>\<open>ClaudeService.remove_session_process\<close>.\<close>

definition remove_session_process :: "ustr \<Rightarrow> ClaudeService \<Rightarrow> ClaudeService" where
  "remove_session_process session_id s =
     (case map_of (session_processes s) session_id of
        None \<Rightarrow> s
      | Some process \<Rightarrow>
          let s1 = s\<lparr>session_processes := AList.delete session_id (session_processes s)\<rparr>;
              s2 = (if map_of (active_processes s1) process \<noteq> None
                    then s1\<lparr>active_processes := AList.delete process (active_processes s1)\<rparr>
                    else s1)
          in stop process s2)"

text \<open>
  \<^verbatim>\<open>ClaudeService.cleanup_all_processes\<close>: the loop runs over a copy of the keys taken
  before the first removal.
\<close>

definition cleanup_all_processes :: "ClaudeService \<Rightarrow> ClaudeService" where
  "cleanup_all_processes s =
     (let s1 = foldl (\<lambda>st process_id. remove_process process_id st) s
                 (map fst (active_processes s))
      in s1\<lparr>session_processes := []\<rparr>)"

text \<open>Sequences of operations on the service.\<close>

datatype service_op =
    GetOrCreateProcess "ustr option" bool
  | RemoveProcess nat
  | RemoveSessionProcess ustr
  | CleanupAllProcesses

fun apply_op :: "ClaudeService \<Rightarrow> service_op \<Rightarrow> ClaudeService" where
  "apply_op s (GetOrCreateProcess session_id start_ok) = snd (get_or_create_process session_id start_ok s)"
| "apply_op s (RemoveProcess process_id) = remove_process process_id s"
| "apply_op s (RemoveSessionProcess session_id) = remove_session_process session_id s"
| "apply_op s CleanupAllProcesses = cleanup_all_processes s"

definition run_ops :: "service_op list \<Rightarrow> ClaudeService \<Rightarrow> ClaudeService" where
  "run_ops ops s = foldl apply_op s ops"

text \<open>
  The property of the claim: every handle stored in \<^verbatim>\<open>session_processes\<close> is registered
  under its own process id in \<^verbatim>\<open>active_processes\<close>.
\<close>

definition secondary_index_consistent :: "ClaudeService \<Rightarrow> bool" where
  "secondary_index_consistent s \<longleftrightarrow>
     list_all (\<lambda>(sid, process). map_of (active_processes s) process = Some process)
       (session_processes s)"

text \<open>
  The invariant that carries the induction: besides the property of the claim, every
  handle of the main registry sits under its own, already drawn, process id; no handle is
  cached under two conversation ids; the empty string is not a key of the cache; and the
  keys of each dictionary are distinct.
\<close>

definition maps_inv :: "(nat \<Rightarrow> nat option) \<Rightarrow> (ustr \<Rightarrow> nat option) \<Rightarrow> nat \<Rightarrow> bool" where
  "maps_inv A S n \<longleftrightarrow>
     (\<forall>sid h. S sid = Some h \<longrightarrow> A h = Some h)
   \<and> (\<forall>p h. A p = Some h \<longrightarrow> h = p \<and> p < n)
   \<and> (\<forall>sid sid' h. S sid = Some h \<longrightarrow> S sid' = Some h \<longrightarrow> sid = sid')
   \<and> S [] = None"

definition registry_inv :: "ClaudeService \<Rightarrow> bool" where
  "registry_inv s \<longleftrightarrow>
     distinct (map fst (active_processes s))
   \<and> distinct (map fst (session_processes s))
   \<and> maps_inv (map_of (active_processes s)) (map_of (session_processes s)) (next_process_id s)"

lemma maps_inv_evict:
  "maps_inv A S n \<Longrightarrow> S sid = Some h \<Longrightarrow> maps_inv (A(h := None)) (S(sid := None)) n"
  unfolding maps_inv_def by (auto split: if_splits)

lemma maps_inv_drop_session:
  "maps_inv A S n \<Longrightarrow> maps_inv A (S(sid := None)) n"
  unfolding maps_inv_def by (auto split: if_splits)

lemma maps_inv_drop_unreferenced:
  "maps_inv A S n \<Longrightarrow> \<forall>sid. S sid \<noteq> Some p \<Longrightarrow> maps_inv (A(p := None)) S n"
  unfolding maps_inv_def by (auto split: if_splits)

lemma maps_inv_fresh_id: "maps_inv A S n \<Longrightarrow> maps_inv A S (Suc n)"
  unfolding maps_inv_def by (auto simp: less_Suc_eq)

lemma maps_inv_register:
  "maps_inv A S n \<Longrightarrow> maps_inv (A(n \<mapsto> n)) S (Suc n)"
  unfolding maps_inv_def by (auto simp: less_Suc_eq split: if_splits)

lemma maps_inv_register_session:
  assumes "maps_inv A S n" and "sid \<noteq> []"
  shows "maps_inv (A(n \<mapsto> n)) (S(sid \<mapsto> n)) (Suc n)"
proof -
  have fresh: "\<And>x. S x \<noteq> Some n"
  proof
    fix x assume "S x = Some n"
    with assms(1) have "A n = Some n" by (auto simp: maps_inv_def)
    with assms(1) have "n < n" unfolding maps_inv_def by blast
    then show False by simp
  qed
  from assms fresh show ?thesis
    unfolding maps_inv_def by (auto simp: less_Suc_eq split: if_splits)
qed

lemma inv_new: "registry_inv new_service"
  by (simp add: registry_inv_def new_service_def maps_inv_def)

lemma inv_stop: "registry_inv s \<Longrightarrow> registry_inv (stop h s)"
  by (simp add: registry_inv_def stop_def)

lemma inv_evict:
  assumes "registry_inv s"
  shows "registry_inv (snd (evict_stopped session_id s))"
proof (cases session_id)
  case None
  with assms show ?thesis by (simp add: evict_stopped_def)
next
  case (Some sid)
  show ?thesis
  proof (cases "map_of (session_processes s) sid")
    case None
    with assms Some show ?thesis by (simp add: evict_stopped_def)
  next
    case h: (Some h)
    from assms h have act: "map_of (active_processes s) h = Some h"
      by (simp add: registry_inv_def maps_inv_def del: map_of_eq_Some_iff)
    have "registry_inv (s\<lparr>session_processes := AList.delete sid (session_processes s),
                            active_processes := AList.delete h (active_processes s)\<rparr>)"
      using assms h
      by (simp add: registry_inv_def distinct_delete delete_conv' maps_inv_evict
            del: map_of_eq_Some_iff)
    with assms Some h act show ?thesis
      by (simp add: evict_stopped_def Let_def del: map_of_eq_Some_iff)
  qed
qed

lemma inv_register:
  assumes "registry_inv s"
  shows "registry_inv (snd (register_new session_id start_ok s))"
proof (cases start_ok)
  case False
  with assms show ?thesis
    by (simp add: register_new_def Let_def registry_inv_def maps_inv_fresh_id)
next
  case True
  show ?thesis
  proof (cases "truthy session_id")
    case False
    with assms True show ?thesis
      by (auto simp: register_new_def Let_def registry_inv_def truthy_def distinct_update
            update_conv' maps_inv_register split: option.splits)
  next
    case t: True
    then obtain sid where "session_id = Some sid" and "sid \<noteq> []"
      by (auto simp: truthy_def split: option.splits)
    with assms True show ?thesis
      by (simp add: register_new_def Let_def registry_inv_def distinct_update
            update_conv' maps_inv_register_session)
  qed
qed

lemma inv_get_or_create:
  assumes "registry_inv s"
  shows "registry_inv (snd (get_or_create_process session_id start_ok s))"
proof -
  obtain r s' where e: "evict_stopped session_id s = (r, s')" by (cases "evict_stopped session_id s")
  with inv_evict [OF assms, of session_id] have "registry_inv s'" by simp
  with e show ?thesis
    by (cases r) (simp_all add: get_or_create_process_def inv_register)
qed

lemma find_handle_Some:
  assumes "distinct (map fst xs)"
    and "find (\<lambda>(sid, cached_process). cached_process = p) xs = Some (sid, h)"
  shows "map_of xs sid = Some p"
proof -
  from assms(2) have "(sid, h) \<in> set xs" and "h = p"
    by (auto simp: find_Some_iff in_set_conv_nth)
  with assms(1) show ?thesis by simp
qed

lemma find_handle_None:
  assumes "find (\<lambda>(sid, cached_process). cached_process = p) xs = None"
  shows "map_of xs sid \<noteq> Some p"
proof
  assume "map_of xs sid = Some p"
  then have "(sid, p) \<in> set xs" by (rule map_of_SomeD)
  with assms show False by (auto simp: find_None_iff)
qed

lemma inv_remove_process:
  assumes "registry_inv s"
  shows "registry_inv (remove_process process_id s)"
proof (cases "map_of (active_processes s) process_id")
  case None
  with assms show ?thesis by (simp add: remove_process_def)
next
  case (Some process)
  let ?A = "map_of (active_processes s)" and ?S = "map_of (session_processes s)"
  from assms have d: "distinct (map fst (active_processes s))" "distinct (map fst (session_processes s))"
    and m: "maps_inv ?A ?S (next_process_id s)"
    by (simp_all add: registry_inv_def)
  show ?thesis
  proof (cases "find (\<lambda>(sid, cached_process). cached_process = process_id) (session_processes s)")
    case None
    then have "\<forall>sid. ?S sid \<noteq> Some process_id" by (simp add: find_handle_None)
    with m have "maps_inv (?A(process_id := None)) ?S (next_process_id s)"
      by (rule maps_inv_drop_unreferenced)
    with d None Some show ?thesis
      by (simp add: remove_process_def Let_def inv_stop registry_inv_def distinct_delete
            delete_conv' stop_def del: map_of_eq_Some_iff)
  next
    case f: (Some pair)
    obtain sid h where pair: "pair = (sid, h)" by (cases pair)
    with f have "find (\<lambda>(sid, cached_process). cached_process = process_id)
                   (session_processes s) = Some (sid, h)" by simp
    with d(2) have S: "?S sid = Some process_id" by (rule find_handle_Some)
    with m have ne: "sid \<noteq> []" by (auto simp: maps_inv_def simp del: map_of_eq_Some_iff)
    from m S have "maps_inv (?A(process_id := None)) (?S(sid := None)) (next_process_id s)"
      by (rule maps_inv_evict)
    with d f pair ne Some show ?thesis
      by (simp add: remove_process_def Let_def registry_inv_def distinct_delete
            delete_conv' stop_def del: map_of_eq_Some_iff)
  qed
qed

lemma inv_remove_session_process:
  assumes "registry_inv s"
  shows "registry_inv (remove_session_process session_id s)"
proof (cases "map_of (session_processes s) session_id")
  case None
  with assms show ?thesis by (simp add: remove_session_process_def)
next
  case (Some process)
  let ?A = "map_of (active_processes s)" and ?S = "map_of (session_processes s)"
  from assms have d: "distinct (map fst (active_processes s))" "distinct (map fst (session_processes s))"
    and m: "maps_inv ?A ?S (next_process_id s)"
    by (simp_all add: registry_inv_def)
  from m Some have act: "?A process = Some process"
    by (simp add: maps_inv_def del: map_of_eq_Some_iff)
  from m Some have "maps_inv (?A(process := None)) (?S(session_id := None)) (next_process_id s)"
    by (rule maps_inv_evict)
  with d Some act show ?thesis
    by (simp add: remove_session_process_def Let_def registry_inv_def distinct_delete
          delete_conv' stop_def del: map_of_eq_Some_iff)
qed

lemma inv_fold_remove:
  "registry_inv s \<Longrightarrow> registry_inv (foldl (\<lambda>st process_id. remove_process process_id st) s ps)"
  by (induction ps arbitrary: s) (simp_all add: inv_remove_process)

lemma inv_cleanup_all:
  assumes "registry_inv s"
  shows "registry_inv (cleanup_all_processes s)"
proof -
  from assms have "registry_inv (foldl (\<lambda>st process_id. remove_process process_id st) s
                     (map fst (active_processes s)))"
    by (rule inv_fold_remove)
  then show ?thesis
    by (simp add: cleanup_all_processes_def Let_def registry_inv_def maps_inv_def)
qed

lemma inv_apply_op: "registry_inv s \<Longrightarrow> registry_inv (apply_op s op)"
  by (cases op)
     (simp_all add: inv_get_or_create inv_remove_process inv_remove_session_process
        inv_cleanup_all)

lemma inv_run_ops: "registry_inv s \<Longrightarrow> registry_inv (run_ops ops s)"
  unfolding run_ops_def by (induction ops arbitrary: s) (simp_all add: inv_apply_op)

lemma inv_consistent:
  assumes "registry_inv s"
  shows "secondary_index_consistent s"
proof -
  have "map_of (active_processes s) h = Some h" if "(sid, h) \<in> set (session_processes s)" for sid h
  proof -
    from assms that have "map_of (session_processes s) sid = Some h"
      by (simp add: registry_inv_def)
    with assms show ?thesis
      by (simp add: registry_inv_def maps_inv_def del: map_of_eq_Some_iff)
  qed
  then show ?thesis
    by (auto simp: secondary_index_consistent_def list_all_iff simp del: map_of_eq_Some_iff)
qed

text \<open>
  Claim C10.  After any sequence of \<^verbatim>\<open>get_or_create_process\<close> (succeeding or failing),
  \<^verbatim>\<open>remove_process\<close>, \<^verbatim>\<open>remove_session_process\<close> and \<^verbatim>\<open>cleanup_all_processes\<close> on a new
  service, every handle in the conversation-id registry is registered under its own
  process id in the main registry.
\<close>

theorem C10_secondary_index_consistent:
  "secondary_index_consistent (run_ops ops new_service)"
  by (rule inv_consistent, rule inv_run_ops, rule inv_new)


text \<open>
  An instance: two conversations are opened, an anonymous process is created, the
  process of the first conversation is removed by its id; the cache then holds exactly
  the second conversation, whose handle is still in the main registry.
\<close>

theorem C10_secondary_index_consistent_witness:
  "secondary_index_consistent
     (run_ops [GetOrCreateProcess (Some (asc ''a'')) True,
               GetOrCreateProcess (Some (asc ''b'')) True,
               GetOrCreateProcess None True,
               RemoveProcess 0] new_service)
   \<and> session_processes
       (run_ops [GetOrCreateProcess (Some (asc ''a'')) True,
                 GetOrCreateProcess (Some (asc ''b'')) True,
                 GetOrCreateProcess None True,
                 RemoveProcess 0] new_service) = [(asc ''b'', 1)]
   \<and> active_processes
       (run_ops [GetOrCreateProcess (Some (asc ''a'')) True,
                 GetOrCreateProcess (Some (asc ''b'')) True,
                 GetOrCreateProcess None True,
                 RemoveProcess 0] new_service) = [(1, 1), (2, 2)]"
  using C10_secondary_index_consistent
          [of "[GetOrCreateProcess (Some (asc ''a'')) True,
                GetOrCreateProcess (Some (asc ''b'')) True,
                GetOrCreateProcess None True,
                RemoveProcess 0]"]
  by (simp add: run_ops_def get_or_create_process_def evict_stopped_def register_new_def
        remove_process_def stop_def new_service_def asc_def Let_def)



section \<open>Dates and times\<close>

text \<open>
  A \<^verbatim>\<open>datetime\<close> is modelled by its position on the proleptic Gregorian time line: the
  number of microseconds since 0001-01-01 00:00:00.  Python's comparison of two datetimes
  of the same kind (both naive, or both in UTC) is the comparison of these numbers, and
  its arithmetic with \<^verbatim>\<open>timedelta\<close> is their arithmetic; the range limit of year 9999 is
  not modelled.  A \<^verbatim>\<open>timedelta\<close> is a number of microseconds.
\<close>

type_synonym datetime = int
type_synonym timedelta = int

text \<open>\<^verbatim>\<open>timedelta(days=d, minutes=m, seconds=s)\<close>.\<close>

definition timedelta_of :: "int \<Rightarrow> int \<Rightarrow> int \<Rightarrow> timedelta" where
  "timedelta_of days minutes seconds = ((days * 24 * 60 + minutes) * 60 + seconds) * 1000000"

text \<open>
  \<^verbatim>\<open>int(td.total_seconds())\<close>: the seconds of the difference, rounded towards zero.  (The
  floating-point quotient of the source is exact enough for this below 2^53 microseconds.)
\<close>

definition int_total_seconds :: "timedelta \<Rightarrow> int" where
  "int_total_seconds td = (if 0 \<le> td then td div 1000000 else - ((- td) div 1000000))"

text \<open>
  \<^verbatim>\<open>datetime.now()\<close> is an effect.  The clock is a function from the number of readings
  made so far to the time read; every component that reads the clock counts its readings
  (field \<open>ticks\<close>).  Readings whose value only goes into a log message are not modelled.
\<close>

type_synonym clock = "nat \<Rightarrow> datetime"

text \<open>
  Values whose type is only known at run time.  The text of a timestamp column is
  represented by the datetime it spells (\<open>PyIsoStr\<close>): \<^verbatim>\<open>isoformat\<close> followed by
  \<^verbatim>\<open>fromisoformat\<close> gives the datetime back.  \<^verbatim>\<open>datetime.fromisoformat\<close> accepts strings
  only and raises \<^verbatim>\<open>TypeError\<close> for everything else, in particular for a datetime.
\<close>

datatype py_value = PyNone | PyStr ustr | PyIsoStr datetime | PyDatetime datetime

fun fromisoformat :: "py_value \<Rightarrow> py_error + datetime" where
  "fromisoformat (PyIsoStr d) = Inr d"
| "fromisoformat (PyStr s) = Inl ValueError"
| "fromisoformat (PyDatetime d) = Inl TypeError"
| "fromisoformat PyNone = Inl TypeError"

section \<open>Sessions\<close>

text \<open>\<^verbatim>\<open>models/session.py\<close>: \<^verbatim>\<open>Session\<close>, its expiry test and its activity stamp.\<close>

record Session =
  session_id :: ustr
  created_at :: datetime
  last_activity :: datetime
  claude_process_id :: "ustr option"
  claude_session_id :: "ustr option"
  message_count :: int
  is_active :: bool
  claude_working_dir :: "ustr option"
  max_message_history :: int
  timeout_minutes :: int
  user_agent :: "ustr option"
  client_ip :: "ustr option"
  metadata :: "(ustr \<times> ustr) list"

definition is_expired :: "Session \<Rightarrow> datetime \<Rightarrow> bool" where
  "is_expired session now =
     (let expiry_time = last_activity session + timedelta_of 0 (timeout_minutes session) 0
      in now > expiry_time)"

definition update_activity :: "Session \<Rightarrow> datetime \<Rightarrow> Session" where
  "update_activity session now =
     session\<lparr>last_activity := now, message_count := message_count session + 1\<rparr>"

text \<open>
  \<^verbatim>\<open>SessionCreateRequest\<close> and its \<^verbatim>\<open>create_session\<close>.  The generated identifier
  (\<^verbatim>\<open>session_\<close> and twelve hexadecimal digits of a fresh UUID) is an argument; the two
  default factories of \<^verbatim>\<open>Session\<close> read the clock one after the other.
\<close>

record SessionCreateRequest =
  req_session_id :: "ustr option"
  req_claude_working_dir :: "ustr option"
  req_max_message_history :: int
  req_timeout_minutes :: int
  req_metadata :: "(ustr \<times> ustr) list"

definition request_create_session ::
  "SessionCreateRequest \<Rightarrow> ustr \<Rightarrow> datetime \<Rightarrow> datetime \<Rightarrow> Session" where
  "request_create_session request generated_id now1 now2 =
     \<lparr>session_id = (if truthy (req_session_id request) then the (req_session_id request)
                     else generated_id),
      created_at = now1,
      last_activity = now2,
      claude_process_id = None,
      claude_session_id = None,
      message_count = 0,
      is_active = True,
      claude_working_dir = req_claude_working_dir request,
      max_message_history = req_max_message_history request,
      timeout_minutes = req_timeout_minutes request,
      user_agent = None,
      client_ip = None,
      metadata = req_metadata request\<rparr>"

text \<open>\<^verbatim>\<open>SessionUpdateRequest\<close> and its \<^verbatim>\<open>apply_to_session\<close>.\<close>

record SessionUpdateRequest =
  upd_is_active :: "bool option"
  upd_claude_session_id :: "ustr option"
  upd_metadata :: "(ustr \<times> ustr) list option"

definition apply_to_session :: "SessionUpdateRequest \<Rightarrow> Session \<Rightarrow> Session" where
  "apply_to_session request session =
     (let s1 = (case upd_is_active request of None \<Rightarrow> session
                | Some a \<Rightarrow> session\<lparr>is_active := a\<rparr>);
          s2 = (case upd_claude_session_id request of None \<Rightarrow> s1
                | Some c \<Rightarrow> s1\<lparr>claude_session_id := Some c\<rparr>);
          s3 = (case upd_metadata request of None \<Rightarrow> s2
                | Some m \<Rightarrow> s2\<lparr>metadata := foldl (\<lambda>d (k, v). AList.update k v d) (metadata s2) m\<rparr>)
      in s3)"

subsection \<open>The durable store\<close>

text \<open>
  \<^verbatim>\<open>services/database.py\<close>.  The table \<^verbatim>\<open>sessions\<close> is a map from the primary key to
  the row; the store is modelled with a working connection, so that no statement fails
  for lack of one.  An insert with a key that is already there fails (and is
  reported as \<^verbatim>\<open>False\<close>); an update or a delete of an absent row changes nothing.
\<close>

record db_row =
  row_claude_session_id :: "ustr option"
  row_claude_process_id :: "ustr option"
  row_created_at :: datetime
  row_last_activity :: datetime
  row_message_count :: int
  row_is_active :: bool
  row_claude_working_dir :: "ustr option"
  row_max_message_history :: int
  row_timeout_minutes :: int
  row_user_agent :: "ustr option"
  row_client_ip :: "ustr option"
  row_metadata :: "(ustr \<times> ustr) list"

type_synonym database = "ustr \<Rightarrow> db_row option"

text \<open>The dictionary that \<^verbatim>\<open>SessionManager.create_session\<close> passes to the store.\<close>

record session_data =
  sd_session_id :: ustr
  sd_claude_session_id :: "ustr option"
  sd_claude_working_dir :: ustr
  sd_created_at :: datetime
  sd_last_activity :: datetime
  sd_timeout_minutes :: int
  sd_is_active :: bool

definition db_create_session :: "session_data \<Rightarrow> database \<Rightarrow> bool \<times> database" where
  "db_create_session d db =
     (if db (sd_session_id d) \<noteq> None then (False, db)
      else (True, db(sd_session_id d \<mapsto>
              \<lparr>row_claude_session_id = sd_claude_session_id d,
               row_claude_process_id = None,
               row_created_at = sd_created_at d,
               row_last_activity = sd_last_activity d,
               row_message_count = 0,
               row_is_active = sd_is_active d,
               row_claude_working_dir = Some (sd_claude_working_dir d),
               row_max_message_history = 50,
               row_timeout_minutes = sd_timeout_minutes d,
               row_user_agent = None,
               row_client_ip = None,
               row_metadata = []\<rparr>)))"

text \<open>
  \<^verbatim>\<open>DatabaseManager.get_session\<close> returns the row as a dictionary, after converting the
  two timestamp columns from their text to \<^verbatim>\<open>datetime\<close> objects.
\<close>

record db_session =
  ds_claude_session_id :: "ustr option"
  ds_claude_working_dir :: "ustr option"
  ds_created_at :: py_value
  ds_last_activity :: py_value
  ds_message_count :: int
  ds_is_active :: bool
  ds_timeout_minutes :: int
  ds_metadata :: "(ustr \<times> ustr) list"

definition db_get_session :: "ustr \<Rightarrow> database \<Rightarrow> db_session option" where
  "db_get_session sid db =
     (case db sid of
        None \<Rightarrow> None
      | Some row \<Rightarrow>
          (case (fromisoformat (PyIsoStr (row_created_at row)),
                 fromisoformat (PyIsoStr (row_last_activity row))) of
             (Inr c, Inr l) \<Rightarrow>
               Some \<lparr>ds_claude_session_id = row_claude_session_id row,
                     ds_claude_working_dir = row_claude_working_dir row,
                     ds_created_at = PyDatetime c,
                     ds_last_activity = PyDatetime l,
                     ds_message_count = row_message_count row,
                     ds_is_active = row_is_active row,
                     ds_timeout_minutes = row_timeout_minutes row,
                     ds_metadata = row_metadata row\<rparr>
           | _ \<Rightarrow> None))"

text \<open>\<^verbatim>\<open>DatabaseManager.update_session\<close> with the columns the session manager sets.\<close>

datatype column_update =
    Set_claude_session_id ustr
  | Set_is_active bool
  | Set_metadata "(ustr \<times> ustr) list"
  | Set_last_activity datetime

fun set_column :: "db_row \<Rightarrow> column_update \<Rightarrow> db_row" where
  "set_column row (Set_claude_session_id c) = row\<lparr>row_claude_session_id := Some c\<rparr>"
| "set_column row (Set_is_active a) = row\<lparr>row_is_active := a\<rparr>"
| "set_column row (Set_metadata m) = row\<lparr>row_metadata := m\<rparr>"
| "set_column row (Set_last_activity l) = row\<lparr>row_last_activity := l\<rparr>"

definition db_update_session :: "ustr \<Rightarrow> column_update list \<Rightarrow> database \<Rightarrow> database" where
  "db_update_session sid updates db =
     (case db sid of None \<Rightarrow> db | Some row \<Rightarrow> db(sid \<mapsto> foldl set_column row updates))"

definition db_delete_session :: "ustr \<Rightarrow> database \<Rightarrow> database" where
  "db_delete_session sid db = db(sid := None)"

subsection \<open>The session manager\<close>

text \<open>\<^verbatim>\<open>services/session_manager.py\<close>: the in-memory cache, the store and the counters.\<close>

record SessionManager =
  sessions :: "ustr \<Rightarrow> Session option"
  db_manager :: database
  total_sessions_created :: nat
  ticks :: nat

definition new_session_manager :: "database \<Rightarrow> SessionManager" where
  "new_session_manager db =
     \<lparr>sessions = Map.empty, db_manager = db, total_sessions_created = 0, ticks = 0\<rparr>"

definition tick :: "SessionManager \<Rightarrow> SessionManager" where
  "tick m = m\<lparr>ticks := Suc (ticks m)\<rparr>"

text \<open>\<^verbatim>\<open>str(v)\<close> for an optional string: \<^verbatim>\<open>None\<close> becomes the text \<^verbatim>\<open>None\<close>.\<close>

definition py_str_optional :: "ustr option \<Rightarrow> ustr" where
  "py_str_optional v = (case v of None \<Rightarrow> asc ''None'' | Some s \<Rightarrow> s)"

text \<open>\<^verbatim>\<open>SessionManager.create_session\<close>.\<close>

definition create_session ::
  "clock \<Rightarrow> ustr \<Rightarrow> SessionCreateRequest \<Rightarrow> SessionManager
     \<Rightarrow> (py_error + Session) \<times> SessionManager" where
  "create_session clk generated_id request m =
     (if truthy (req_session_id request)
         \<and> (case sessions m (the (req_session_id request)) of
               None \<Rightarrow> False | Some existing_session \<Rightarrow> is_active existing_session)
      then (Inl SessionError, m)
      else
        let session = request_create_session request generated_id
                        (clk (ticks m)) (clk (Suc (ticks m)));
            m1 = tick (tick m);
            sid = session_id session;
            m2 = m1\<lparr>sessions := (sessions m1)(sid \<mapsto> session)\<rparr>;
            session_data =
              \<lparr>sd_session_id = sid,
               sd_claude_session_id = claude_session_id session,
               sd_claude_working_dir = py_str_optional (claude_working_dir session),
               sd_created_at = created_at session,
               sd_last_activity = last_activity session,
               sd_timeout_minutes = timeout_minutes session,
               sd_is_active = is_active session\<rparr>;
            m3 = m2\<lparr>db_manager := snd (db_create_session session_data (db_manager m2))\<rparr>;
            m4 = m3\<lparr>total_sessions_created := Suc (total_sessions_created m3)\<rparr>
        in (Inr session, m4))"

text \<open>\<^verbatim>\<open>SessionManager.remove_session\<close>.\<close>

definition remove_session :: "ustr \<Rightarrow> SessionManager \<Rightarrow> bool \<times> SessionManager" where
  "remove_session sid m =
     (if sessions m sid = None \<and> db_get_session sid (db_manager m) = None then (False, m)
      else
        let m1 = m\<lparr>sessions := (sessions m)(sid := None)\<rparr>;
            m2 = m1\<lparr>db_manager := db_delete_session sid (db_manager m1)\<rparr>
        in (True, m2))"

text \<open>\<^verbatim>\<open>SessionManager.get_session\<close>.\<close>

definition get_session :: "clock \<Rightarrow> ustr \<Rightarrow> SessionManager \<Rightarrow> Session option \<times> SessionManager" where
  "get_session clk sid m =
     (case sessions m sid of
        None \<Rightarrow> (None, m)
      | Some session \<Rightarrow>
          if is_expired session (clk (ticks m))
          then (None, snd (remove_session sid (tick m)))
          else (Some session, tick m))"

text \<open>\<^verbatim>\<open>SessionManager.update_session\<close>.\<close>

definition update_session ::
  "clock \<Rightarrow> ustr \<Rightarrow> SessionUpdateRequest \<Rightarrow> SessionManager
     \<Rightarrow> (py_error + Session) \<times> SessionManager" where
  "update_session clk sid request m =
     (case get_session clk sid m of
        (None, m1) \<Rightarrow> (Inl SessionError, m1)
      | (Some session0, m1) \<Rightarrow>
          let session = update_activity (apply_to_session request session0) (clk (ticks m1));
              m2 = tick m1;
              m3 = m2\<lparr>sessions := (sessions m2)(sid \<mapsto> session)\<rparr>;
              update_data =
                (case upd_claude_session_id request of None \<Rightarrow> []
                 | Some c \<Rightarrow> [Set_claude_session_id c])
                @ (case upd_is_active request of None \<Rightarrow> [] | Some a \<Rightarrow> [Set_is_active a])
                @ (case upd_metadata request of None \<Rightarrow> [] | Some md \<Rightarrow> [Set_metadata md])
                @ [Set_last_activity (last_activity session)];
              m4 = m3\<lparr>db_manager := db_update_session sid update_data (db_manager m3)\<rparr>
          in (Inr session, m4))"

text \<open>
  The keyword arguments that a caller of \<^verbatim>\<open>get_or_create_session\<close> may pass on to
  \<^verbatim>\<open>SessionCreateRequest\<close>; each may be absent.
\<close>

record session_kwargs =
  kw_claude_working_dir :: "ustr option option"
  kw_max_message_history :: "int option"
  kw_timeout_minutes :: "int option"
  kw_metadata :: "(ustr \<times> ustr) list option"

definition no_kwargs :: session_kwargs where
  "no_kwargs = \<lparr>kw_claude_working_dir = None, kw_max_message_history = None,
                 kw_timeout_minutes = None, kw_metadata = None\<rparr>"

definition SessionCreateRequest_of :: "ustr option \<Rightarrow> ustr option \<Rightarrow> session_kwargs \<Rightarrow> SessionCreateRequest" where
  "SessionCreateRequest_of sid working_dir kwargs =
     \<lparr>req_session_id = sid,
      req_claude_working_dir = working_dir,
      req_max_message_history = py_get (kw_max_message_history kwargs) 50,
      req_timeout_minutes = py_get (kw_timeout_minutes kwargs) 30,
      req_metadata = py_get (kw_metadata kwargs) []\<rparr>"

text \<open>
  \<^verbatim>\<open>SessionManager.get_or_create_session\<close>.  The branch that restores a session found in
  the store is \<open>rehydrate\<close>: it builds the request from the row and the keyword arguments
  (a \<^verbatim>\<open>claude_working_dir\<close> among the keyword arguments is then given twice, which Python
  rejects with \<^verbatim>\<open>TypeError\<close>), creates the session object, copies the conversation id,
  and parses the stored last activity with \<^verbatim>\<open>datetime.fromisoformat\<close>.
\<close>

definition rehydrate ::
  "clock \<Rightarrow> ustr \<Rightarrow> ustr \<Rightarrow> session_kwargs \<Rightarrow> db_session \<Rightarrow> SessionManager
     \<Rightarrow> (py_error + Session) \<times> SessionManager" where
  "rehydrate clk generated_id sid kwargs dbs m =
     (if kw_claude_working_dir kwargs \<noteq> None then (Inl TypeError, m)
      else
        let request = SessionCreateRequest_of (Some sid) (ds_claude_working_dir dbs) kwargs;
            session0 = request_create_session request generated_id
                         (clk (ticks m)) (clk (Suc (ticks m)));
            m1 = tick (tick m);
            session1 = session0\<lparr>claude_session_id := ds_claude_session_id dbs\<rparr>
        in case fromisoformat (ds_last_activity dbs) of
             Inl e \<Rightarrow> (Inl e, m1)
           | Inr l \<Rightarrow>
               let session2 = session1\<lparr>last_activity := l\<rparr>;
                   session3 = update_activity session2 (clk (ticks m1));
                   m2 = tick m1;
                   m3 = m2\<lparr>sessions := (sessions m2)(sid \<mapsto> session3)\<rparr>;
                   m4 = m3\<lparr>db_manager :=
                            db_update_session sid [Set_last_activity (last_activity session3)]
                              (db_manager m3)\<rparr>
               in (Inr session3, m4))"

definition get_or_create_session ::
  "clock \<Rightarrow> ustr \<Rightarrow> ustr option \<Rightarrow> session_kwargs \<Rightarrow> SessionManager
     \<Rightarrow> (py_error + Session) \<times> SessionManager" where
  "get_or_create_session clk generated_id session_id_arg kwargs m =
     (let create_new = (\<lambda>m'.
            create_session clk generated_id
              (SessionCreateRequest_of session_id_arg
                 (py_get (kw_claude_working_dir kwargs) None) kwargs) m')
      in if truthy session_id_arg then
           let sid = the session_id_arg in
           case get_session clk sid m of
             (Some session0, m1) \<Rightarrow>
               let session = update_activity session0 (clk (ticks m1));
                   m2 = tick m1
               in (Inr session, m2\<lparr>sessions := (sessions m2)(sid \<mapsto> session)\<rparr>)
           | (None, m1) \<Rightarrow>
               (case db_get_session sid (db_manager m1) of
                  Some dbs \<Rightarrow> rehydrate clk generated_id sid kwargs dbs m1
                | None \<Rightarrow> create_new m1)
         else create_new m)"


subsection \<open>Expiry and retrieval\<close>

lemma is_expired_iff:
  "is_expired session now \<longleftrightarrow>
     now > last_activity session + timeout_minutes session * 60000000"
  by (simp add: is_expired_def timedelta_of_def mult.commute)

text \<open>
  Claim C4.  A session is expired exactly when the time read is strictly later than its
  last activity plus its timeout in minutes.  \<^verbatim>\<open>get_session\<close> returns nothing and changes
  nothing for an identifier that is not cached; for a cached session that is expired it
  returns nothing and removes the identifier from the cache and from the store; for a
  cached session that is not expired it returns the session, leaving cache and store as
  they are.
\<close>

theorem C4_get_session:
  "(is_expired session now \<longleftrightarrow>
      now > last_activity session + timeout_minutes session * 60000000)
   \<and> (sessions m sid = None \<longrightarrow> get_session clk sid m = (None, m))
   \<and> (sessions m sid = Some session \<and> is_expired session (clk (ticks m)) \<longrightarrow>
        fst (get_session clk sid m) = None
        \<and> sessions (snd (get_session clk sid m)) = (sessions m)(sid := None)
        \<and> db_manager (snd (get_session clk sid m)) = (db_manager m)(sid := None))
   \<and> (sessions m sid = Some session \<and> \<not> is_expired session (clk (ticks m)) \<longrightarrow>
        fst (get_session clk sid m) = Some session
        \<and> sessions (snd (get_session clk sid m)) = sessions m
        \<and> db_manager (snd (get_session clk sid m)) = db_manager m)"
  by (simp add: is_expired_iff get_session_def remove_session_def tick_def
        db_delete_session_def Let_def)



subsection \<open>A session that leaves the cache\<close>

text \<open>
  A scenario on a manager with an empty store and a clock that advances one second per
  reading: the session \<^verbatim>\<open>alice\<close> is created, the conversation id \<^verbatim>\<open>conv-1\<close> is
  recorded on it with \<^verbatim>\<open>update_session\<close>, and it is fetched once more.  Then the cache is
  lost (as after a restart of the process) while the store keeps its row.
\<close>

definition alice :: ustr where "alice = asc ''alice''"
definition conv1 :: ustr where "conv1 = asc ''conv-1''"
definition second_clock :: clock where "second_clock n = int n * 1000000"
definition late_clock :: clock where "late_clock n = 10000000000"

definition scenario_before_eviction :: SessionManager where
  "scenario_before_eviction =
     (let m0 = new_session_manager Map.empty;
          m1 = snd (get_or_create_session second_clock (asc ''unused'') (Some alice) no_kwargs m0);
          m2 = snd (update_session second_clock alice
                      \<lparr>upd_is_active = None, upd_claude_session_id = Some conv1,
                       upd_metadata = None\<rparr> m1);
          m3 = snd (get_or_create_session second_clock (asc ''unused'') (Some alice) no_kwargs m2)
      in m3)"

definition scenario_after_eviction :: SessionManager where
  "scenario_after_eviction = scenario_before_eviction\<lparr>sessions := Map.empty\<rparr>"

definition alice_session :: Session where
  "alice_session = the (sessions scenario_before_eviction alice)"

lemmas session_eval =
  get_or_create_session_def update_session_def create_session_def get_session_def
  rehydrate_def remove_session_def db_get_session_def db_create_session_def
  db_update_session_def db_delete_session_def new_session_manager_def tick_def
  request_create_session_def SessionCreateRequest_of_def apply_to_session_def
  update_activity_def is_expired_def timedelta_of_def no_kwargs_def truthy_def py_get_def
  py_str_optional_def second_clock_def late_clock_def alice_def conv1_def Let_def

lemma scenario_before_eviction_facts:
  "sessions scenario_before_eviction alice = Some alice_session
   \<and> claude_session_id alice_session = Some conv1
   \<and> message_count alice_session = 2
   \<and> map_option row_claude_session_id (db_manager scenario_before_eviction alice)
       = Some (Some conv1)
   \<and> map_option row_message_count (db_manager scenario_before_eviction alice) = Some 0
   \<and> \<not> is_expired alice_session (second_clock (ticks scenario_before_eviction))
   \<and> is_expired alice_session (late_clock (ticks scenario_before_eviction))
   \<and> sessions scenario_before_eviction (asc ''bob'') = None"
  by (simp add: alice_session_def scenario_before_eviction_def session_eval asc_def)

theorem C4_get_session_witness:
  "get_session second_clock (asc ''bob'') scenario_before_eviction
     = (None, scenario_before_eviction)
   \<and> fst (get_session late_clock alice scenario_before_eviction) = None
   \<and> sessions (snd (get_session late_clock alice scenario_before_eviction)) alice = None
   \<and> db_manager (snd (get_session late_clock alice scenario_before_eviction)) alice = None
   \<and> db_manager scenario_before_eviction alice \<noteq> None
   \<and> fst (get_session second_clock alice scenario_before_eviction) = Some alice_session
   \<and> sessions (snd (get_session second_clock alice scenario_before_eviction))
       = sessions scenario_before_eviction"
  using C4_get_session [of alice_session 0 scenario_before_eviction "asc ''bob''" second_clock]
        C4_get_session [of alice_session 0 scenario_before_eviction alice late_clock]
        C4_get_session [of alice_session 0 scenario_before_eviction alice second_clock]
        scenario_before_eviction_facts
  by auto

text \<open>
  Whenever a non-empty identifier is absent from the cache and present in the store,
  \<^verbatim>\<open>get_or_create_session\<close> raises \<^verbatim>\<open>TypeError\<close>: \<^verbatim>\<open>DatabaseManager.get_session\<close> has
  already converted \<^verbatim>\<open>last_activity\<close> to a datetime, and the session manager passes that
  datetime to \<^verbatim>\<open>datetime.fromisoformat\<close> again.  Nothing is restored to the cache, and the
  row stays, so every later call fails in the same way.
\<close>

lemma db_get_session_Some:
  "db sid = Some row \<Longrightarrow> \<exists>dbs. db_get_session sid db = Some dbs
      \<and> ds_last_activity dbs = PyDatetime (row_last_activity row)
      \<and> ds_claude_session_id dbs = row_claude_session_id row"
  by (simp add: db_get_session_def)

lemma rehydrate_raises:
  assumes "ds_last_activity dbs = PyDatetime l"
  shows "fst (rehydrate clk gid sid kwargs dbs m) = Inl TypeError
       \<and> sessions (snd (rehydrate clk gid sid kwargs dbs m)) = sessions m
       \<and> db_manager (snd (rehydrate clk gid sid kwargs dbs m)) = db_manager m"
  using assms by (simp add: rehydrate_def Let_def tick_def)

lemma rehydration_always_raises:
  assumes "sid \<noteq> []" and "sessions m sid = None" and "db_manager m sid = Some row"
  shows "fst (get_or_create_session clk gid (Some sid) kwargs m) = Inl TypeError
       \<and> sessions (snd (get_or_create_session clk gid (Some sid) kwargs m)) sid = None
       \<and> db_manager (snd (get_or_create_session clk gid (Some sid) kwargs m)) sid = Some row"
proof -
  from assms(3) obtain dbs where dbs: "db_get_session sid (db_manager m) = Some dbs"
    and l: "ds_last_activity dbs = PyDatetime (row_last_activity row)"
    using db_get_session_Some by blast
  have g: "get_session clk sid m = (None, m)" using assms(2) by (simp add: get_session_def)
  have "get_or_create_session clk gid (Some sid) kwargs m = rehydrate clk gid sid kwargs dbs m"
    using assms(1) dbs g by (simp add: get_or_create_session_def truthy_def Let_def)
  with rehydrate_raises [OF l, of clk gid sid kwargs m] assms show ?thesis by simp
qed

text \<open>
  Claim C8.  In the scenario, the session \<^verbatim>\<open>alice\<close> is in the store with its conversation
  id and is no longer in the cache; it has not expired.  The next
  \<^verbatim>\<open>get_or_create_session\<close> with the same identifier does not return a session: it raises
  \<^verbatim>\<open>TypeError\<close> and leaves the cache without the session.
\<close>

theorem C8_rehydration_raises_TypeError:
  "sessions scenario_after_eviction alice = None
   \<and> map_option row_claude_session_id (db_manager scenario_after_eviction alice)
       = Some (Some conv1)
   \<and> \<not> is_expired alice_session (second_clock (ticks scenario_after_eviction))
   \<and> fst (get_or_create_session second_clock (asc ''unused'') (Some alice) no_kwargs
            scenario_after_eviction) = Inl TypeError
   \<and> sessions (snd (get_or_create_session second_clock (asc ''unused'') (Some alice) no_kwargs
            scenario_after_eviction)) alice = None"
  by (simp add: scenario_after_eviction_def alice_session_def scenario_before_eviction_def
        session_eval asc_def)


end
